theory Spec2Isabelle
  imports Main "HOL-Library.AList"
begin

section \<open>Data model of \<^verbatim>\<open>functions/src/index.ts\<close>\<close>

text \<open>
  The file exports three Cloud Functions handlers: \<^verbatim>\<open>sendNotificationToUser\<close>
  (document creation), \<^verbatim>\<open>updateBadgeCount\<close> (document update) and
  \<^verbatim>\<open>sendEventReminders\<close> (hourly schedule). Each handler is embedded as a
  function that returns the external calls it issues, in program order, together with what
  its promise settles to.
\<close>

subsection \<open>JavaScript values\<close>

text \<open>
  The values a Firestore document field of type \<^verbatim>\<open>any\<close> can hold. Objects are
  association lists in property order; numbers are carried as integers.
\<close>

datatype jsval =
    JUndefined
  | JNull
  | JBool bool
  | JNum int
  | JStr string
  | JArr "jsval list"
  | JObj "(string \<times> jsval) list"

text \<open>The \<^verbatim>\<open>typeof\<close> operator.\<close>

fun js_typeof :: "jsval \<Rightarrow> string" where
  "js_typeof JUndefined = ''undefined''"
| "js_typeof JNull = ''object''"
| "js_typeof (JBool b) = ''boolean''"
| "js_typeof (JNum n) = ''number''"
| "js_typeof (JStr s) = ''string''"
| "js_typeof (JArr xs) = ''object''"
| "js_typeof (JObj kvs) = ''object''"

text \<open>
  Truthiness of an optional string (\<^verbatim>\<open>if (!recipientId)\<close>, \<^verbatim>\<open>if (!token)\<close>,
  \<^verbatim>\<open>if (event.creatorId)\<close>): \<^verbatim>\<open>undefined\<close> and the empty string are falsy.
\<close>

fun truthy :: "string option \<Rightarrow> bool" where
  "truthy None = False"
| "truthy (Some s) = (s \<noteq> [])"

text \<open>\<^verbatim>\<open>x || ""\<close> on an optional string.\<close>

fun or_empty :: "string option \<Rightarrow> string" where
  "or_empty None = []"
| "or_empty (Some s) = s"

text \<open>An optional string inside a template literal: \<^verbatim>\<open>undefined\<close> prints as its name.\<close>

fun interpolate :: "string option \<Rightarrow> string" where
  "interpolate None = ''undefined''"
| "interpolate (Some s) = s"

subsection \<open>Timestamps\<close>

record Timestamp =
  seconds :: int
  nanoseconds :: int

text \<open>Firestore orders timestamps by seconds, then by nanoseconds.\<close>

definition ts_le :: "Timestamp \<Rightarrow> Timestamp \<Rightarrow> bool" where
  "ts_le a b \<longleftrightarrow>
     seconds a < seconds b \<or> (seconds a = seconds b \<and> nanoseconds a \<le> nanoseconds b)"

definition toMillis :: "Timestamp \<Rightarrow> int" where
  "toMillis t = seconds t * 1000 + nanoseconds t div 1000000"

text \<open>A timestamp as a number of nanoseconds since the epoch.\<close>

definition toNanos :: "Timestamp \<Rightarrow> int" where
  "toNanos t = seconds t * 1000000000 + nanoseconds t"

definition valid_ts :: "Timestamp \<Rightarrow> bool" where
  "valid_ts t \<longleftrightarrow> 0 \<le> nanoseconds t \<and> nanoseconds t < 1000000000"

subsection \<open>Documents\<close>

text \<open>
  \<^verbatim>\<open>interface NotificationData\<close>. The documents written by
  \<^verbatim>\<open>sendEventReminders\<close> carry one more field, \<^verbatim>\<open>recipientType\<close>, which the
  interface does not declare; it is kept here so that a written document is a value of
  this type.
\<close>

record NotificationData =
  recipientId :: "string option"
  recipientType :: "string option"
  title :: "string option"
  message :: "string option"
  type :: "string option"
  status :: "string option"
  createdAt :: "Timestamp option"
  metadata :: "(string \<times> jsval) list option"
  actionLink :: "string option"
  imageUrl :: "string option"

text \<open>\<^verbatim>\<open>interface EventData\<close>.\<close>

record EventData =
  creatorId :: "string option"
  name :: "string option"
  startTime :: "Timestamp option"
  venueAddress :: "string option"
  reminderSent :: "bool option"
  attendees :: "string list option"

text \<open>
  The store: the \<^verbatim>\<open>user_tokens\<close> collection maps a user id to a document whose
  \<^verbatim>\<open>token\<close> field may be missing; the two notification collections and the
  \<^verbatim>\<open>events\<close> collection are lists of (document id, data).
\<close>

record world =
  user_tokens :: "string \<Rightarrow> string option option"
  user_notifications :: "(string \<times> NotificationData) list"
  creator_notifications :: "(string \<times> NotificationData) list"
  events :: "(string \<times> EventData) list"

subsection \<open>Outbound messages\<close>

text \<open>\<^verbatim>\<open>admin.messaging.Message\<close>, with the sections the two senders fill in.\<close>

record MsgNotification =
  n_title :: "string option"
  n_body :: "string option"
  n_imageUrl :: "string option"

record AndroidConfig =
  a_priority :: string
  a_sound :: string
  a_notification_priority :: string
  a_channelId :: string

record Aps =
  aps_sound :: "string option"
  aps_badge :: nat

record Message =
  notification :: "MsgNotification option"
  data :: "(string \<times> string) list"
  token :: string
  android :: "AndroidConfig option"
  apns :: Aps

subsection \<open>Failures, calls and results\<close>

datatype error = Error string

datatype logval = LStr string | LNum nat | LErr error

text \<open>
  The external calls a handler issues. A template literal is logged as its pieces.
  \<^verbatim>\<open>BatchUpdate id b\<close> is \<^verbatim>\<open>batch.update(ref, {reminderSent: b})\<close>.
\<close>

datatype effect =
    ConsoleLog "logval list"
  | ConsoleError "logval list"
  | MessagingSend Message
  | BatchUpdate string bool
  | BatchCommit
  | CollectionAdd string NotificationData

datatype retval = RNull | RResponse string | RSuccess

text \<open>
  The environment of one invocation: the two conversion built-ins, and for every call that
  returns a promise whether it rejects. \<^verbatim>\<open>add_result k\<close> is the outcome of the
  \<open>k\<close>-th \<^verbatim>\<open>add\<close> call that returned a promise: a rejection, or the id of the
  new document; \<^verbatim>\<open>add_settles_first k\<close> tells whether that promise settles while
  \<^verbatim>\<open>batch.commit()\<close> is still pending.
\<close>

record env =
  String_js :: "jsval \<Rightarrow> string"
  JSON_stringify :: "jsval \<Rightarrow> string"
  token_get_fault :: "error option"
  query_fault :: "error option"
  send_result :: "Message \<Rightarrow> error + string"
  commit_fault :: "error option"
  add_result :: "nat \<Rightarrow> error + string"
  add_settles_first :: "nat \<Rightarrow> bool"

text \<open>
  \<^verbatim>\<open>try { ... } catch (error) { console.error(label, error); return null; }\<close>
  around a body that issued the calls \<open>effs\<close> and then returned or threw.
\<close>

fun try_catch :: "string \<Rightarrow> effect list \<times> (error + retval) \<Rightarrow> effect list \<times> (error + retval)" where
  "try_catch label (effs, Inl e) = (effs @ [ConsoleError [LStr label, LErr e]], Inr RNull)"
| "try_catch label (effs, Inr v) = (effs, Inr v)"

definition is_notification_collection :: "string \<Rightarrow> bool" where
  "is_notification_collection collection \<longleftrightarrow>
     \<not> (collection \<noteq> ''user_notifications'' \<and> collection \<noteq> ''creator_notifications'')"

text \<open>\<^verbatim>\<open>admin.firestore().collection("user_tokens").doc(recipientId).get()\<close>\<close>

definition get_user_tokens_doc :: "env \<Rightarrow> world \<Rightarrow> string \<Rightarrow> error + string option option" where
  "get_user_tokens_doc ev w recipient =
     (case token_get_fault ev of Some e \<Rightarrow> Inl e | None \<Rightarrow> Inr (user_tokens w recipient))"

section \<open>\<^verbatim>\<open>sendNotificationToUser\<close>\<close>

text \<open>The four fixed fields of \<^verbatim>\<open>messageData\<close>.\<close>

definition messageData_fixed :: "string \<Rightarrow> NotificationData \<Rightarrow> (string \<times> string) list" where
  "messageData_fixed notificationId n =
     [(''notificationId'', notificationId),
      (''type'', or_empty (type n)),
      (''click_action'', ''FLUTTER_NOTIFICATION_CLICK''),
      (''actionLink'', or_empty (actionLink n))]"

text \<open>
  \<^verbatim>\<open>const metadataToInclude = { ...notification.metadata };
  delete metadataToInclude.fullDescription; delete metadataToInclude.fullContent;\<close>
\<close>

definition metadataToInclude :: "(string \<times> jsval) list \<Rightarrow> (string \<times> jsval) list" where
  "metadataToInclude md = AList.delete ''fullContent'' (AList.delete ''fullDescription'' md)"

text \<open>Reading a property: a missing one is \<^verbatim>\<open>undefined\<close>.\<close>

definition js_get :: "(string \<times> jsval) list \<Rightarrow> string \<Rightarrow> jsval" where
  "js_get obj key = (case map_of obj key of None \<Rightarrow> JUndefined | Some v \<Rightarrow> v)"

definition flatten_value :: "env \<Rightarrow> jsval \<Rightarrow> string" where
  "flatten_value ev v =
     (if js_typeof v = ''object'' then JSON_stringify ev v else String_js ev v)"

text \<open>
  \<^verbatim>\<open>Object.keys(metadataToInclude).forEach(key => { messageData[key] = ... })\<close>:
  an assignment replaces the value of a key that is there and appends a new key.
\<close>

definition assign_metadata :: "env \<Rightarrow> (string \<times> jsval) list \<Rightarrow> (string \<times> string) list \<Rightarrow> (string \<times> string) list" where
  "assign_metadata ev mti md0 =
     fold (\<lambda>key md. AList.update key (flatten_value ev (js_get mti key)) md) (map fst mti) md0"

definition messageData :: "env \<Rightarrow> string \<Rightarrow> NotificationData \<Rightarrow> (string \<times> string) list" where
  "messageData ev notificationId n =
     (case metadata n of
        None \<Rightarrow> messageData_fixed notificationId n
      | Some md \<Rightarrow> assign_metadata ev (metadataToInclude md) (messageData_fixed notificationId n))"

definition push_message :: "env \<Rightarrow> string \<Rightarrow> NotificationData \<Rightarrow> string \<Rightarrow> Message" where
  "push_message ev notificationId n tok =
     \<lparr> notification = Some \<lparr> n_title = title n, n_body = message n, n_imageUrl = imageUrl n \<rparr>,
       data = messageData ev notificationId n,
       token = tok,
       android = Some \<lparr> a_priority = ''high'', a_sound = ''default'',
                        a_notification_priority = ''high'',
                        a_channelId = ''high_importance_channel'' \<rparr>,
       apns = \<lparr> aps_sound = Some ''default'', aps_badge = 1 \<rparr> \<rparr>"

text \<open>The body of the \<^verbatim>\<open>try\<close> block.\<close>

definition sendNotificationToUser_body ::
  "env \<Rightarrow> world \<Rightarrow> string \<Rightarrow> string \<Rightarrow> NotificationData \<Rightarrow> effect list \<times> (error + retval)" where
  "sendNotificationToUser_body ev w collection notificationId n =
     (if collection \<noteq> ''user_notifications'' \<and> collection \<noteq> ''creator_notifications''
      then ([], Inr RNull)
      else if \<not> truthy (recipientId n)
      then ([ConsoleLog [LStr ''No recipient ID found in notification'']], Inr RNull)
      else
        (let recipient = or_empty (recipientId n) in
         case get_user_tokens_doc ev w recipient of
           Inl e \<Rightarrow> ([], Inl e)
         | Inr None \<Rightarrow>
             ([ConsoleLog [LStr ''No token found for user: '', LStr recipient]], Inr RNull)
         | Inr (Some tok) \<Rightarrow>
             if \<not> truthy tok
             then ([ConsoleLog [LStr ''Token exists but is empty for user: '', LStr recipient]],
                   Inr RNull)
             else
               (let msg = push_message ev notificationId n (or_empty tok) in
                case send_result ev msg of
                  Inl e \<Rightarrow> ([MessagingSend msg], Inl e)
                | Inr response \<Rightarrow>
                    ([MessagingSend msg,
                      ConsoleLog [LStr ''Successfully sent message:'', LStr response]],
                     Inr (RResponse response)))))"

definition sendNotificationToUser ::
  "env \<Rightarrow> world \<Rightarrow> string \<Rightarrow> string \<Rightarrow> NotificationData \<Rightarrow> effect list \<times> (error + retval)" where
  "sendNotificationToUser ev w collection notificationId n =
     try_catch ''Error sending notification:''
       (sendNotificationToUser_body ev w collection notificationId n)"

text \<open>The messages a handler handed to \<^verbatim>\<open>admin.messaging().send\<close>.\<close>

fun sends :: "effect list \<Rightarrow> Message list" where
  "sends [] = []"
| "sends (MessagingSend m # es) = m # sends es"
| "sends (e # es) = sends es"

section \<open>\<^verbatim>\<open>updateBadgeCount\<close>\<close>

text \<open>The documents of a top-level collection that the handlers read by name.\<close>

definition collection_docs :: "world \<Rightarrow> string \<Rightarrow> (string \<times> NotificationData) list" where
  "collection_docs w collection =
     (if collection = ''user_notifications'' then user_notifications w
      else if collection = ''creator_notifications'' then creator_notifications w
      else [])"

text \<open>
  \<^verbatim>\<open>collection(collection).where("recipientId", "==", recipientId)
  .where("status", "==", "unread").get()\<close>
\<close>

definition unreadQuery :: "env \<Rightarrow> world \<Rightarrow> string \<Rightarrow> string \<Rightarrow> error + (string \<times> NotificationData) list" where
  "unreadQuery ev w collection recipient =
     (case query_fault ev of
        Some e \<Rightarrow> Inl e
      | None \<Rightarrow>
          Inr (filter (\<lambda>d. recipientId (snd d) = Some recipient \<and> status (snd d) = Some ''unread'')
                 (collection_docs w collection)))"

definition badge_message :: "string \<Rightarrow> nat \<Rightarrow> Message" where
  "badge_message tok unreadCount =
     \<lparr> notification = None,
       data = [(''updateBadge'', ''true'')],
       token = tok,
       android = None,
       apns = \<lparr> aps_sound = None, aps_badge = unreadCount \<rparr> \<rparr>"

definition updateBadgeCount_body ::
  "env \<Rightarrow> world \<Rightarrow> string \<Rightarrow> NotificationData \<Rightarrow> NotificationData \<Rightarrow> effect list \<times> (error + retval)" where
  "updateBadgeCount_body ev w collection beforeData afterData =
     (if collection \<noteq> ''user_notifications'' \<and> collection \<noteq> ''creator_notifications''
      then ([], Inr RNull)
      else if status beforeData = Some ''unread'' \<and> status afterData \<noteq> Some ''unread''
      then
        (if \<not> truthy (recipientId afterData) then ([], Inr RNull)
         else
           (let recipient = or_empty (recipientId afterData) in
            case unreadQuery ev w collection recipient of
              Inl e \<Rightarrow> ([], Inl e)
            | Inr docs \<Rightarrow>
                (let unreadCount = length docs in
                 case get_user_tokens_doc ev w recipient of
                   Inl e \<Rightarrow> ([], Inl e)
                 | Inr None \<Rightarrow> ([], Inr RNull)
                 | Inr (Some tok) \<Rightarrow>
                     if \<not> truthy tok then ([], Inr RNull)
                     else
                       (let msg = badge_message (or_empty tok) unreadCount in
                        case send_result ev msg of
                          Inl e \<Rightarrow> ([MessagingSend msg], Inl e)
                        | Inr response \<Rightarrow> ([MessagingSend msg], Inr RSuccess)))))
      else ([], Inr RNull))"

definition updateBadgeCount ::
  "env \<Rightarrow> world \<Rightarrow> string \<Rightarrow> NotificationData \<Rightarrow> NotificationData \<Rightarrow> effect list \<times> (error + retval)" where
  "updateBadgeCount ev w collection beforeData afterData =
     try_catch ''Error updating badge count:''
       (updateBadgeCount_body ev w collection beforeData afterData)"

section \<open>\<^verbatim>\<open>sendEventReminders\<close>\<close>

definition oneHourLater :: "Timestamp \<Rightarrow> Timestamp" where
  "oneHourLater now = \<lparr> seconds = seconds now + 3600, nanoseconds = nanoseconds now \<rparr>"

definition twoHoursLater :: "Timestamp \<Rightarrow> Timestamp" where
  "twoHoursLater now = \<lparr> seconds = seconds now + 7200, nanoseconds = nanoseconds now \<rparr>"

text \<open>
  \<^verbatim>\<open>where("startTime", ">=", oneHourLater).where("startTime", "<=", twoHoursLater)\<close>:
  a range filter matches only documents that have the field. The documents are listed in
  the order of the collection.
\<close>

definition in_window :: "Timestamp \<Rightarrow> EventData \<Rightarrow> bool" where
  "in_window now event =
     (case startTime event of
        None \<Rightarrow> False
      | Some t \<Rightarrow> ts_le (oneHourLater now) t \<and> ts_le t (twoHoursLater now))"

definition eventsSnapshot :: "Timestamp \<Rightarrow> world \<Rightarrow> (string \<times> EventData) list" where
  "eventsSnapshot now w = filter (\<lambda>d. in_window now (snd d)) (events w)"

definition reminder_metadata :: "string \<Rightarrow> EventData \<Rightarrow> (string \<times> jsval) list" where
  "reminder_metadata eventId event =
     [(''eventId'', JStr eventId),
      (''eventName'', (case name event of None \<Rightarrow> JUndefined | Some s \<Rightarrow> JStr s)),
      (''startTime'', (case startTime event of None \<Rightarrow> JUndefined | Some t \<Rightarrow> JNum (toMillis t))),
      (''venueAddress'', (case venueAddress event of None \<Rightarrow> JUndefined | Some s \<Rightarrow> JStr s))]"

text \<open>The document added to \<^verbatim>\<open>creator_notifications\<close>.\<close>

definition creator_reminder :: "Timestamp \<Rightarrow> string \<Rightarrow> EventData \<Rightarrow> string \<Rightarrow> NotificationData" where
  "creator_reminder now eventId event creator =
     \<lparr> recipientId = Some creator,
       recipientType = Some ''eventCreator'',
       title = Some ''Event Starting Soon'',
       message = Some (''Your '' @ [CHR 0x22] @ interpolate (name event) @ [CHR 0x22]
                        @ '' event starts in less than 2 hours.''),
       type = Some ''eventStartingSoon'',
       status = Some ''unread'',
       createdAt = Some now,
       metadata = Some (reminder_metadata eventId event),
       actionLink = Some (''event/'' @ eventId),
       imageUrl = None \<rparr>"

text \<open>The document added to \<^verbatim>\<open>user_notifications\<close> for one attendee.\<close>

definition attendee_reminder :: "Timestamp \<Rightarrow> string \<Rightarrow> EventData \<Rightarrow> string \<Rightarrow> NotificationData" where
  "attendee_reminder now eventId event attendeeId =
     \<lparr> recipientId = Some attendeeId,
       recipientType = Some ''user'',
       title = Some ''Event Starting Soon'',
       message = Some ([CHR 0x22] @ interpolate (name event) @ [CHR 0x22]
                        @ '' starts in less than 2 hours.''),
       type = Some ''eventStartingSoon'',
       status = Some ''unread'',
       createdAt = Some now,
       metadata = Some (reminder_metadata eventId event),
       actionLink = Some (''event/'' @ eventId),
       imageUrl = None \<rparr>"

text \<open>
  \<^verbatim>\<open>add\<close> checks its argument before it sends anything: a document with an
  \<^verbatim>\<open>undefined\<close> value, at any depth, makes the call itself throw.
  \<^verbatim>\<open>admin.initializeApp()\<close> is called without settings, so
  \<^verbatim>\<open>ignoreUndefinedProperties\<close> is off. In a document of type
  \<open>NotificationData\<close> a field that is \<open>None\<close> is a key the object does not have;
  an \<^verbatim>\<open>undefined\<close> value can only sit in its metadata.
\<close>

fun has_undefined :: "jsval \<Rightarrow> bool" where
  "has_undefined JUndefined = True"
| "has_undefined JNull = False"
| "has_undefined (JBool b) = False"
| "has_undefined (JNum n) = False"
| "has_undefined (JStr s) = False"
| "has_undefined (JArr xs) = list_ex has_undefined xs"
| "has_undefined (JObj kvs) = list_ex has_undefined (map snd kvs)"

definition validateDocumentData :: "NotificationData \<Rightarrow> error option" where
  "validateDocumentData d =
     (case metadata d of
        None \<Rightarrow> None
      | Some md \<Rightarrow>
          if list_ex has_undefined (map snd md)
          then Some (Error ''Cannot use undefined as a Firestore value'')
          else None)"

text \<open>
  A stretch of the loop: the calls it issued, and the error it threw if it did.
  \<open>and_then\<close> runs a second stretch after a first one that did not throw.
\<close>

fun and_then :: "effect list \<times> error option \<Rightarrow> effect list \<times> error option \<Rightarrow> effect list \<times> error option" where
  "and_then (effs, Some e) rest = (effs, Some e)"
| "and_then (effs, None) rest = (effs @ fst rest, snd rest)"

text \<open>\<^verbatim>\<open>promises.push(admin.firestore().collection(c).add(d))\<close>\<close>

definition collection_add :: "string \<Rightarrow> NotificationData \<Rightarrow> effect list \<times> error option" where
  "collection_add c d =
     (case validateDocumentData d of
        Some e \<Rightarrow> ([], Some e)
      | None \<Rightarrow> ([CollectionAdd c d], None))"

text \<open>\<^verbatim>\<open>for (const attendeeId of event.attendees)\<close>\<close>

fun add_attendees :: "Timestamp \<Rightarrow> string \<Rightarrow> EventData \<Rightarrow> string list \<Rightarrow> effect list \<times> error option" where
  "add_attendees now eventId event [] = ([], None)"
| "add_attendees now eventId event (attendeeId # as) =
     and_then (collection_add ''user_notifications''
                 (attendee_reminder now eventId event attendeeId))
       (add_attendees now eventId event as)"

text \<open>
  One iteration of \<^verbatim>\<open>for (const eventDoc of eventsSnapshot.docs)\<close> for the document
  \<open>(eventId, event)\<close>.
\<close>

definition process_event :: "Timestamp \<Rightarrow> string \<times> EventData \<Rightarrow> effect list \<times> error option" where
  "process_event now eventDoc =
     (let eventId = fst eventDoc; event = snd eventDoc in
      if reminderSent event = Some True then ([], None)
      else
        and_then ([BatchUpdate eventId True], None)
          (and_then
             (if truthy (creatorId event)
              then collection_add ''creator_notifications''
                     (creator_reminder now eventId event (or_empty (creatorId event)))
              else ([], None))
             (case attendees event of
                None \<Rightarrow> ([], None)
              | Some as \<Rightarrow>
                  if length as > 0 then add_attendees now eventId event as else ([], None))))"

text \<open>The loop: it stops at the first iteration that throws.\<close>

fun process_events :: "Timestamp \<Rightarrow> (string \<times> EventData) list \<Rightarrow> effect list \<times> error option" where
  "process_events now [] = ([], None)"
| "process_events now (eventDoc # docs) =
     and_then (process_event now eventDoc) (process_events now docs)"

text \<open>The \<^verbatim>\<open>add\<close> calls among the issued calls: the \<^verbatim>\<open>promises\<close> array.\<close>

fun promises :: "effect list \<Rightarrow> (string \<times> NotificationData) list" where
  "promises [] = []"
| "promises (CollectionAdd c d # es) = (c, d) # promises es"
| "promises (e # es) = promises es"

text \<open>The staged \<^verbatim>\<open>batch.update\<close> calls among the issued calls.\<close>

fun batch :: "effect list \<Rightarrow> (string \<times> bool) list" where
  "batch [] = []"
| "batch (BatchUpdate i b # es) = (i, b) # batch es"
| "batch (e # es) = batch es"

text \<open>The first rejection among the \<^verbatim>\<open>add\<close> promises numbered \<open>ks\<close>.\<close>

fun promise_all :: "env \<Rightarrow> nat list \<Rightarrow> error option" where
  "promise_all ev [] = None"
| "promise_all ev (k # ks) =
     (case add_result ev k of Inl e \<Rightarrow> Some e | Inr r \<Rightarrow> promise_all ev ks)"

text \<open>
  The first rejection among the \<^verbatim>\<open>add\<close> promises numbered \<open>ks\<close> that settle while
  \<^verbatim>\<open>batch.commit()\<close> is pending. No handler is attached to them before
  \<^verbatim>\<open>Promise.all\<close>.
\<close>

fun rejected_first :: "env \<Rightarrow> nat list \<Rightarrow> error option" where
  "rejected_first ev [] = None"
| "rejected_first ev (k # ks) =
     (case add_result ev k of
        Inl e \<Rightarrow> if add_settles_first ev k then Some e else rejected_first ev ks
      | Inr r \<Rightarrow> rejected_first ev ks)"

text \<open>
  How the \<^verbatim>\<open>try\<close> block stands after \<^verbatim>\<open>await batch.commit()\<close> (lines 206 to
  293): it has returned, it has thrown, the batch is committed and the block goes on, or
  an \<^verbatim>\<open>add\<close> promise was rejected with no handler attached while the commit was
  pending, which ends the process with an unhandled rejection.
\<close>

datatype progress = Returned retval | Threw error | Committed | Unhandled error

definition sendEventReminders_body :: "env \<Rightarrow> world \<Rightarrow> Timestamp \<Rightarrow> effect list \<times> progress" where
  "sendEventReminders_body ev w now =
     (case query_fault ev of
        Some e \<Rightarrow> ([], Threw e)
      | None \<Rightarrow>
          (let docs = eventsSnapshot now w in
           if docs = []
           then ([ConsoleLog [LStr ''No upcoming events found for reminders'']], Returned RNull)
           else
             (let found = ConsoleLog [LStr ''Found '', LNum (length docs), LStr '' events for reminders''];
                  issued = fst (process_events now docs);
                  n = length (promises issued)
              in
              case snd (process_events now docs) of
                Some e \<Rightarrow> (found # issued, Threw e)
              | None \<Rightarrow>
                  (case rejected_first ev [0..<n] of
                     Some u \<Rightarrow> (found # issued @ [BatchCommit], Unhandled u)
                   | None \<Rightarrow>
                       (case commit_fault ev of
                          Some e \<Rightarrow> (found # issued @ [BatchCommit], Threw e)
                        | None \<Rightarrow> (found # issued @ [BatchCommit], Committed))))))"

text \<open>
  The handler. Its result is \<open>Inr v\<close> when its promise settles with \<open>v\<close> and every
  failure was caught, and \<open>Inl u\<close> when the rejection \<open>u\<close> of an \<^verbatim>\<open>add\<close> promise
  reaches no handler: while the commit was pending, or because the block threw before
  \<^verbatim>\<open>await Promise.all(promises)\<close> (line 296) and the \<^verbatim>\<open>catch\<close> block returned
  without awaiting the promises.
\<close>

definition sendEventReminders :: "env \<Rightarrow> world \<Rightarrow> Timestamp \<Rightarrow> effect list \<times> (error + retval)" where
  "sendEventReminders ev w now =
     (let label = ''Error sending event reminders:'';
          effs = fst (sendEventReminders_body ev w now);
          n = length (promises effs)
      in
      case snd (sendEventReminders_body ev w now) of
        Returned v \<Rightarrow> (effs, Inr v)
      | Unhandled u \<Rightarrow> (effs, Inl u)
      | Threw e \<Rightarrow>
          (effs @ [ConsoleError [LStr label, LErr e]],
           (case promise_all ev [0..<n] of Some u \<Rightarrow> Inl u | None \<Rightarrow> Inr RNull))
      | Committed \<Rightarrow>
          try_catch label
            (case promise_all ev [0..<n] of
               Some e \<Rightarrow> (effs, Inl e)
             | None \<Rightarrow>
                 (effs @ [ConsoleLog [LStr ''Sent '', LNum n, LStr '' reminder notifications'']],
                  Inr RSuccess)))"

section \<open>The store after an invocation\<close>

text \<open>\<^verbatim>\<open>update(ref, {reminderSent: b})\<close> on the event document \<open>eventId\<close>.\<close>

definition update_reminderSent :: "string \<times> bool \<Rightarrow> (string \<times> EventData) list \<Rightarrow> (string \<times> EventData) list" where
  "update_reminderSent u docs =
     map (\<lambda>d. if fst d = fst u then (fst d, (snd d)\<lparr> reminderSent := Some (snd u) \<rparr>) else d) docs"

text \<open>An \<^verbatim>\<open>add\<close> that resolved with the new id \<open>newId\<close>.\<close>

definition add_doc :: "string \<Rightarrow> string \<Rightarrow> NotificationData \<Rightarrow> world \<Rightarrow> world" where
  "add_doc collection newId d w =
     (if collection = ''user_notifications''
      then w\<lparr> user_notifications := user_notifications w @ [(newId, d)] \<rparr>
      else if collection = ''creator_notifications''
      then w\<lparr> creator_notifications := creator_notifications w @ [(newId, d)] \<rparr>
      else w)"

text \<open>
  The writes among the issued calls take effect as the environment settles them: the
  \<open>k\<close>-th \<^verbatim>\<open>add\<close> creates its document unless it rejects; \<^verbatim>\<open>batch.commit()\<close>
  applies every staged update, or none when it rejects. \<open>staged\<close> holds the updates staged
  so far and \<open>k\<close> counts the \<^verbatim>\<open>add\<close> calls so far.
\<close>

fun apply_effects :: "env \<Rightarrow> effect list \<Rightarrow> (string \<times> bool) list \<Rightarrow> nat \<Rightarrow> world \<Rightarrow> world" where
  "apply_effects ev [] staged k w = w"
| "apply_effects ev (BatchUpdate i b # es) staged k w = apply_effects ev es (staged @ [(i, b)]) k w"
| "apply_effects ev (BatchCommit # es) staged k w =
     apply_effects ev es [] k
       (case commit_fault ev of
          Some e \<Rightarrow> w
        | None \<Rightarrow> w\<lparr> events := fold update_reminderSent staged (events w) \<rparr>)"
| "apply_effects ev (CollectionAdd c d # es) staged k w =
     apply_effects ev es staged (Suc k)
       (case add_result ev k of Inl e \<Rightarrow> w | Inr newId \<Rightarrow> add_doc c newId d w)"
| "apply_effects ev (e # es) staged k w = apply_effects ev es staged k w"

text \<open>The triggers of the three handlers, and one invocation as a step on the store.\<close>

datatype trigger =
    OnCreate string string NotificationData
  | OnUpdate string string NotificationData NotificationData
  | OnSchedule Timestamp

fun handle :: "env \<Rightarrow> world \<Rightarrow> trigger \<Rightarrow> effect list \<times> (error + retval)" where
  "handle ev w (OnCreate collection notificationId n) =
     sendNotificationToUser ev w collection notificationId n"
| "handle ev w (OnUpdate collection notificationId beforeData afterData) =
     updateBadgeCount ev w collection beforeData afterData"
| "handle ev w (OnSchedule now) = sendEventReminders ev w now"

definition step :: "world \<Rightarrow> env \<times> trigger \<Rightarrow> world" where
  "step w et = apply_effects (fst et) (fst (handle (fst et) w (snd et))) [] 0 w"

text \<open>A sequence of invocations, each with its own environment.\<close>

definition run :: "(env \<times> trigger) list \<Rightarrow> world \<Rightarrow> world" where
  "run ets w = foldl step w ets"

section \<open>Concrete inputs\<close>

text \<open>
  An instance of the two conversion built-ins, for evaluating the handlers on concrete
  documents: \<^verbatim>\<open>String\<close> and \<^verbatim>\<open>JSON.stringify\<close> on values built from
  integers, booleans, \<^verbatim>\<open>null\<close> and strings that JSON prints without escapes. The
  theorems about the handlers hold for every pair of conversion functions.
\<close>

function show_digits :: "int \<Rightarrow> string" where
  "show_digits i =
     (if i < 10 then [''0123456789'' ! nat i]
      else show_digits (i div 10) @ [''0123456789'' ! nat (i mod 10)])"
  by pat_completeness auto
termination
  by (relation "measure nat") auto

declare show_digits.simps [simp del]

definition show_int :: "int \<Rightarrow> string" where
  "show_int i = (if i < 0 then CHR ''-'' # show_digits (- i) else show_digits i)"

fun join_commas :: "string list \<Rightarrow> string" where
  "join_commas [] = []"
| "join_commas [x] = x"
| "join_commas (x # y # ys) = x @ '','' @ join_commas (y # ys)"

fun String_ref :: "jsval \<Rightarrow> string" where
  "String_ref JUndefined = ''undefined''"
| "String_ref JNull = ''null''"
| "String_ref (JBool b) = (if b then ''true'' else ''false'')"
| "String_ref (JNum i) = show_int i"
| "String_ref (JStr s) = s"
| "String_ref (JArr xs) =
     join_commas (map (\<lambda>x. if x = JNull \<or> x = JUndefined then [] else String_ref x) xs)"
| "String_ref (JObj kvs) = ''[object Object]''"

definition quote :: "string \<Rightarrow> string" where
  "quote s = [CHR 0x22] @ s @ [CHR 0x22]"

fun JSON_ref :: "jsval \<Rightarrow> string" where
  "JSON_ref JUndefined = ''null''"
| "JSON_ref JNull = ''null''"
| "JSON_ref (JBool b) = (if b then ''true'' else ''false'')"
| "JSON_ref (JNum i) = show_int i"
| "JSON_ref (JStr s) = quote s"
| "JSON_ref (JArr xs) = ''['' @ join_commas (map JSON_ref xs) @ '']''"
| "JSON_ref (JObj kvs) =
     ''{'' @ join_commas (map (\<lambda>kv. quote (fst kv) @ '':'' @ JSON_ref (snd kv))
                            (filter (\<lambda>kv. snd kv \<noteq> JUndefined) kvs)) @ ''}''"

text \<open>An environment in which every call succeeds.\<close>

definition demo_env :: env where
  "demo_env =
     \<lparr> String_js = String_ref, JSON_stringify = JSON_ref,
       token_get_fault = None, query_fault = None,
       send_result = (\<lambda>m. Inr ''projects/demo/messages/1''),
       commit_fault = None,
       add_result = (\<lambda>k. Inr (''doc'' @ show_int (int k))),
       add_settles_first = (\<lambda>k. False) \<rparr>"

text \<open>The token lookup rejects.\<close>

definition lookup_down :: env where
  "lookup_down = demo_env\<lparr> token_get_fault := Some (Error ''unavailable'') \<rparr>"

text \<open>The batch commit rejects, and so does every \<^verbatim>\<open>add\<close>, after the commit.\<close>

definition commit_and_add_down :: env where
  "commit_and_add_down =
     demo_env\<lparr> commit_fault := Some (Error ''aborted''),
       add_result := (\<lambda>k. Inl (Error ''unavailable'')) \<rparr>"

text \<open>The batch commit succeeds, and every \<^verbatim>\<open>add\<close> rejects while it is pending.\<close>

definition add_down_first :: env where
  "add_down_first =
     demo_env\<lparr> add_result := (\<lambda>k. Inl (Error ''unavailable'')),
       add_settles_first := (\<lambda>k. True) \<rparr>"

definition no_fields :: NotificationData where
  "no_fields =
     \<lparr> recipientId = None, recipientType = None, title = None, message = None, type = None,
       status = None, createdAt = None, metadata = None, actionLink = None, imageUrl = None \<rparr>"

text \<open>A notification with the metadata \<^verbatim>\<open>{a: 1, fullDescription: "...", b: {x: 1}}\<close>.\<close>

definition demo_notification :: NotificationData where
  "demo_notification =
     no_fields\<lparr> recipientId := Some ''U1'', title := Some ''Hello'', message := Some ''World'',
       type := Some ''promo'', status := Some ''unread'',
       metadata := Some [(''a'', JNum 1), (''fullDescription'', JStr ''...''),
                         (''b'', JObj [(''x'', JNum 1)])] \<rparr>"

text \<open>A notification whose metadata names the fixed fields \<^verbatim>\<open>type\<close> and \<^verbatim>\<open>actionLink\<close>.\<close>

definition clashing_notification :: NotificationData where
  "clashing_notification =
     no_fields\<lparr> recipientId := Some ''U1'', type := Some ''promo'', status := Some ''unread'',
       actionLink := Some ''event/E1'',
       metadata := Some [(''type'', JStr ''other''), (''actionLink'', JNull)] \<rparr>"

definition unread_for :: "string \<Rightarrow> NotificationData" where
  "unread_for u = no_fields\<lparr> recipientId := Some u, status := Some ''unread'' \<rparr>"

definition read_for :: "string \<Rightarrow> NotificationData" where
  "read_for u = no_fields\<lparr> recipientId := Some u, status := Some ''read'' \<rparr>"

definition demo_now :: Timestamp where
  "demo_now = \<lparr> seconds = 1700000000, nanoseconds = 250000000 \<rparr>"

definition event_at :: "int \<Rightarrow> int \<Rightarrow> EventData" where
  "event_at s ns =
     \<lparr> creatorId = None, name = None,
       startTime = Some \<lparr> seconds = s, nanoseconds = ns \<rparr>,
       venueAddress = None, reminderSent = None, attendees = None \<rparr>"

text \<open>
  The event \<^verbatim>\<open>{name: "Launch", creatorId: "C1", attendees: ["U1", "U2"],
  startTime: T + 90 min, reminderSent: false}\<close>; it has no \<^verbatim>\<open>venueAddress\<close>.
\<close>

definition launch :: EventData where
  "launch =
     (event_at 1700005400 250000000)\<lparr> creatorId := Some ''C1'', name := Some ''Launch'',
       reminderSent := Some False, attendees := Some [''U1'', ''U2''] \<rparr>"

text \<open>An event in the window whose reminder has been sent.\<close>

definition reminded :: EventData where
  "reminded =
     (event_at 1700005400 0)\<lparr> creatorId := Some ''C2'', name := Some ''Gala'',
       reminderSent := Some True, attendees := Some [''U3''] \<rparr>"

text \<open>
  An event whose creator attends, and one attendee is listed twice; it has no
  \<^verbatim>\<open>venueAddress\<close>.
\<close>

definition meetup :: EventData where
  "meetup =
     (event_at 1700005400 0)\<lparr> creatorId := Some ''U1'', name := Some ''Meetup'',
       attendees := Some [''U1'', ''U2'', ''U2''] \<rparr>"

text \<open>
  A store: user \<^verbatim>\<open>U1\<close> has a token, \<^verbatim>\<open>U2\<close> an empty one, \<^verbatim>\<open>U3\<close> a token
  document without the field, and nobody else has a token document.
\<close>

definition demo_world :: world where
  "demo_world =
     \<lparr> user_tokens =
         (\<lambda>u. if u = ''U1'' then Some (Some ''token-U1'')
              else if u = ''U2'' then Some (Some [])
              else if u = ''U3'' then Some None
              else None),
       user_notifications =
         [(''n1'', unread_for ''U1''), (''n2'', read_for ''U1''),
          (''n3'', unread_for ''U2''), (''n4'', unread_for ''U1'')],
       creator_notifications = [(''m1'', unread_for ''U1'')],
       events = [(''E1'', launch), (''E2'', reminded)] \<rparr>"

text \<open>Events at the two ends of the window of \<open>demo_now\<close> and one nanosecond outside.\<close>

definition boundary_world :: world where
  "boundary_world =
     demo_world\<lparr> events :=
       [(''early'', event_at 1700003600 249999999),
        (''first'', event_at 1700003600 250000000),
        (''last'', event_at 1700007200 250000000),
        (''late'', event_at 1700007200 250000001)] \<rparr>"

definition meetup_world :: world where
  "meetup_world = demo_world\<lparr> events := [(''E3'', meetup)] \<rparr>"

text \<open>The same events with a venue, so that their reminder documents have every field.\<close>

definition pier :: EventData where
  "pier = launch\<lparr> venueAddress := Some ''Pier 1'' \<rparr>"

definition pier_world :: world where
  "pier_world = demo_world\<lparr> events := [(''E1'', pier), (''E2'', reminded)] \<rparr>"

definition hall :: EventData where
  "hall = meetup\<lparr> venueAddress := Some ''Hall'' \<rparr>"

definition hall_world :: world where
  "hall_world = demo_world\<lparr> events := [(''E3'', hall)] \<rparr>"

section \<open>Notions used in the statements\<close>

text \<open>The event a reminder document was written for: its \<^verbatim>\<open>metadata.eventId\<close>.\<close>

definition reminder_eventId :: "NotificationData \<Rightarrow> string option" where
  "reminder_eventId d =
     (case metadata d of
        None \<Rightarrow> None
      | Some md \<Rightarrow> (case map_of md ''eventId'' of Some (JStr i) \<Rightarrow> Some i | _ \<Rightarrow> None))"

text \<open>The \<^verbatim>\<open>add\<close> calls and the staged updates of a run that belong to one event.\<close>

definition promises_for :: "string \<Rightarrow> effect list \<Rightarrow> (string \<times> NotificationData) list" where
  "promises_for eventId effs =
     filter (\<lambda>p. reminder_eventId (snd p) = Some eventId) (promises effs)"

definition batch_for :: "string \<Rightarrow> effect list \<Rightarrow> (string \<times> bool) list" where
  "batch_for eventId effs = filter (\<lambda>u. fst u = eventId) (batch effs)"

text \<open>An event document whose \<^verbatim>\<open>reminderSent\<close> flag is true is in the collection.\<close>

definition flagged :: "string \<Rightarrow> world \<Rightarrow> bool" where
  "flagged eventId w \<longleftrightarrow>
     list_ex (\<lambda>d. fst d = eventId \<and> reminderSent (snd d) = Some True) (events w)"

text \<open>
  The window in the words of the specification, to be compared with \<open>in_window\<close>: the
  start of the event lies in the closed interval from one hour to two hours after
  \<open>now\<close>, measured in nanoseconds.
\<close>

definition start_in_window :: "Timestamp \<Rightarrow> string \<times> EventData \<Rightarrow> bool" where
  "start_in_window now d \<longleftrightarrow>
     (case startTime (snd d) of
        None \<Rightarrow> False
      | Some t \<Rightarrow> toNanos now + 3600 * 1000000000 \<le> toNanos t
               \<and> toNanos t \<le> toNanos now + 7200 * 1000000000)"

section \<open>Basic facts\<close>

lemma truthy_iff: "truthy x \<longleftrightarrow> (\<exists>s. x = Some s \<and> s \<noteq> [])"
  by (cases x) auto

lemma sends_append [simp]: "sends (xs @ ys) = sends xs @ sends ys"
  by (induction xs rule: sends.induct) auto

lemma sends_try_catch [simp]: "sends (fst (try_catch l b)) = sends (fst b)"
  by (cases "(l, b)" rule: try_catch.cases) auto

lemma in_sends: "MessagingSend m \<in> set es \<longleftrightarrow> m \<in> set (sends es)"
  by (induction es rule: sends.induct) auto

lemma body_sends_dispatch:
  "sends (fst (sendNotificationToUser_body ev w c i n)) =
     (if is_notification_collection c \<and> truthy (recipientId n) \<and> token_get_fault ev = None
         \<and> (\<exists>t. user_tokens w (or_empty (recipientId n)) = Some (Some t) \<and> t \<noteq> [])
      then [push_message ev i n (or_empty (the (user_tokens w (or_empty (recipientId n)))))]
      else [])"
  by (auto simp: sendNotificationToUser_body_def is_notification_collection_def
      get_user_tokens_doc_def Let_def truthy_iff split: option.splits sum.splits)

lemma body_sends_badge:
  "sends (fst (updateBadgeCount_body ev w c b a)) =
     (if is_notification_collection c \<and> status b = Some ''unread'' \<and> status a \<noteq> Some ''unread''
         \<and> truthy (recipientId a) \<and> query_fault ev = None \<and> token_get_fault ev = None
         \<and> (\<exists>t. user_tokens w (or_empty (recipientId a)) = Some (Some t) \<and> t \<noteq> [])
      then [badge_message (or_empty (the (user_tokens w (or_empty (recipientId a)))))
              (length (filter (\<lambda>d. recipientId (snd d) = Some (or_empty (recipientId a))
                                  \<and> status (snd d) = Some ''unread'') (collection_docs w c)))]
      else [])"
  by (auto simp: updateBadgeCount_body_def is_notification_collection_def unreadQuery_def
      get_user_tokens_doc_def Let_def truthy_iff split: option.splits sum.splits)

lemmas demo_defs =
  demo_env_def demo_world_def demo_notification_def no_fields_def unread_for_def read_for_def
  is_notification_collection_def

text \<open>
  Claim C2, as stated, fails: a record is created in \<^verbatim>\<open>user_notifications\<close> for a
  recipient who has a non-empty token, the lookup of the token document rejects, the
  \<^verbatim>\<open>catch\<close> block returns \<^verbatim>\<open>null\<close>, and no push is attempted.
\<close>

theorem dispatcher_lookup_failure_counterexample:
  "is_notification_collection ''user_notifications''
   \<and> recipientId (unread_for ''U1'') = Some ''U1''
   \<and> user_tokens demo_world ''U1'' = Some (Some ''token-U1'')
   \<and> ''token-U1'' \<noteq> []
   \<and> sends (fst (sendNotificationToUser lookup_down demo_world ''user_notifications'' ''n9''
        (unread_for ''U1''))) = []"
  by (simp add: sendNotificationToUser_def body_sends_dispatch demo_defs lookup_down_def)

text \<open>
  Claim C2, amended. For a creation in one of the two notification collections (no token
  document has the empty id), the dispatcher hands exactly one message to the transport
  when the lookup of the token document succeeds, the record's \<^verbatim>\<open>recipientId\<close> is
  set and the token store holds a non-empty token for it; in every other case it hands
  over none.
\<close>

theorem dispatcher_push_iff:
  assumes "is_notification_collection collection"
    and "user_tokens w [] = None"
  shows "(length (sends (fst (sendNotificationToUser ev w collection notificationId n))) = 1
           \<longleftrightarrow> token_get_fault ev = None
               \<and> (\<exists>r t. recipientId n = Some r \<and> user_tokens w r = Some (Some t) \<and> t \<noteq> []))
       \<and> (length (sends (fst (sendNotificationToUser ev w collection notificationId n))) = 0
           \<longleftrightarrow> \<not> (token_get_fault ev = None
                  \<and> (\<exists>r t. recipientId n = Some r \<and> user_tokens w r = Some (Some t) \<and> t \<noteq> [])))"
proof (cases "recipientId n")
  case None
  then show ?thesis using assms
    by (simp add: sendNotificationToUser_def body_sends_dispatch)
next
  case (Some r)
  then show ?thesis using assms
    by (cases "r = []") (auto simp: sendNotificationToUser_def body_sends_dispatch)
qed

theorem dispatcher_push_iff_witness:
  "is_notification_collection ''user_notifications''
   \<and> user_tokens demo_world [] = None
   \<and> length (sends (fst (sendNotificationToUser demo_env demo_world ''user_notifications'' ''n9''
        demo_notification))) = 1
   \<and> length (sends (fst (sendNotificationToUser demo_env demo_world ''user_notifications'' ''n9''
        (unread_for ''U2'')))) = 0
   \<and> length (sends (fst (sendNotificationToUser lookup_down demo_world ''user_notifications''
        ''n9'' demo_notification))) = 0"
proof -
  have h1: "is_notification_collection ''user_notifications''"
    by (simp add: is_notification_collection_def)
  have h2: "user_tokens demo_world [] = None"
    by (simp add: demo_world_def)
  have a: "token_get_fault demo_env = None
           \<and> (\<exists>r t. recipientId demo_notification = Some r
                 \<and> user_tokens demo_world r = Some (Some t) \<and> t \<noteq> [])"
    by (simp add: demo_env_def demo_notification_def no_fields_def demo_world_def)
  have b: "\<not> (token_get_fault demo_env = None
             \<and> (\<exists>r t. recipientId (unread_for ''U2'') = Some r
                   \<and> user_tokens demo_world r = Some (Some t) \<and> t \<noteq> []))"
    by (simp add: unread_for_def no_fields_def demo_world_def)
  have c: "\<not> (token_get_fault lookup_down = None
             \<and> (\<exists>r t. recipientId demo_notification = Some r
                   \<and> user_tokens demo_world r = Some (Some t) \<and> t \<noteq> []))"
    by (simp add: lookup_down_def demo_env_def)
  from dispatcher_push_iff [OF h1 h2, of demo_env "''n9''" demo_notification] a
  have a': "length (sends (fst (sendNotificationToUser demo_env demo_world ''user_notifications''
             ''n9'' demo_notification))) = 1"
    by blast
  from dispatcher_push_iff [OF h1 h2, of demo_env "''n9''" "unread_for ''U2''"] b
  have b': "length (sends (fst (sendNotificationToUser demo_env demo_world ''user_notifications''
             ''n9'' (unread_for ''U2'')))) = 0"
    by blast
  from dispatcher_push_iff [OF h1 h2, of lookup_down "''n9''" demo_notification] c
  have c': "length (sends (fst (sendNotificationToUser lookup_down demo_world
             ''user_notifications'' ''n9'' demo_notification))) = 0"
    by blast
  from h1 h2 a' b' c' show ?thesis by blast
qed

text \<open>
  Claim C3, as stated, fails: a record of \<^verbatim>\<open>user_notifications\<close> goes from
  \<^verbatim>\<open>unread\<close> to \<^verbatim>\<open>read\<close> for a recipient without a token document, and no
  badge push is sent.
\<close>

theorem badge_iff_counterexample:
  "is_notification_collection ''user_notifications''
   \<and> status (unread_for ''U9'') = Some ''unread''
   \<and> status (read_for ''U9'') \<noteq> Some ''unread''
   \<and> sends (fst (updateBadgeCount demo_env demo_world ''user_notifications''
        (unread_for ''U9'') (read_for ''U9''))) = []"
  by (simp add: updateBadgeCount_def body_sends_badge demo_defs)

text \<open>
  Claim C3, amended. Exactly one badge push is sent when the update is in one of the two
  notification collections, the status goes from \<^verbatim>\<open>unread\<close> to something else,
  the \<^verbatim>\<open>recipientId\<close> of the new snapshot is a non-empty string with a non-empty
  token in the token store, and neither the unread query nor the token lookup rejects; in
  every other case, in particular for any other field change or status transition, no
  push is sent.
\<close>

theorem badge_push_iff:
  "(length (sends (fst (updateBadgeCount ev w collection beforeData afterData))) = 1
      \<longleftrightarrow> is_notification_collection collection
          \<and> status beforeData = Some ''unread'' \<and> status afterData \<noteq> Some ''unread''
          \<and> query_fault ev = None \<and> token_get_fault ev = None
          \<and> (\<exists>r t. recipientId afterData = Some r \<and> r \<noteq> []
                 \<and> user_tokens w r = Some (Some t) \<and> t \<noteq> []))
   \<and> (length (sends (fst (updateBadgeCount ev w collection beforeData afterData))) \<noteq> 1
      \<longrightarrow> sends (fst (updateBadgeCount ev w collection beforeData afterData)) = [])"
  by (cases "recipientId afterData") (auto simp: updateBadgeCount_def body_sends_badge)

theorem badge_push_iff_witness:
  "length (sends (fst (updateBadgeCount demo_env demo_world ''user_notifications''
      (unread_for ''U1'') (read_for ''U1'')))) = 1
   \<and> sends (fst (updateBadgeCount demo_env demo_world ''user_notifications''
      (read_for ''U1'') (unread_for ''U1''))) = []"
proof -
  have a: "length (sends (fst (updateBadgeCount demo_env demo_world ''user_notifications''
      (unread_for ''U1'') (read_for ''U1'')))) = 1"
    unfolding badge_push_iff [THEN conjunct1]
    by (simp add: demo_defs)
  have "length (sends (fst (updateBadgeCount demo_env demo_world ''user_notifications''
      (read_for ''U1'') (unread_for ''U1'')))) \<noteq> 1"
    unfolding badge_push_iff [THEN conjunct1]
    by (simp add: demo_defs)
  with badge_push_iff [THEN conjunct2] a show ?thesis by blast
qed

text \<open>
  Claim C4. A message sent by the badge synchronizer carries as badge the number of
  documents, in the collection of the updated record as it is when queried, whose
  \<^verbatim>\<open>recipientId\<close> is the one of the new snapshot and whose status is
  \<^verbatim>\<open>unread\<close>.
\<close>

theorem badge_value_is_unread_count:
  assumes "MessagingSend m \<in> set (fst (updateBadgeCount ev w collection beforeData afterData))"
  shows "\<exists>r. recipientId afterData = Some r
           \<and> aps_badge (apns m) =
               length (filter (\<lambda>d. recipientId (snd d) = Some r \<and> status (snd d) = Some ''unread'')
                         (collection_docs w collection))"
  using assms
  by (auto simp: in_sends updateBadgeCount_def body_sends_badge badge_message_def truthy_iff
      split: if_splits)

theorem badge_value_is_unread_count_witness:
  "MessagingSend (badge_message ''token-U1'' 2)
     \<in> set (fst (updateBadgeCount demo_env demo_world ''user_notifications''
                 (unread_for ''U1'') (read_for ''U1'')))
   \<and> length (filter (\<lambda>d. recipientId (snd d) = Some ''U1'' \<and> status (snd d) = Some ''unread'')
              (collection_docs demo_world ''user_notifications'')) = 2"
proof -
  have a: "MessagingSend (badge_message ''token-U1'' 2)
     \<in> set (fst (updateBadgeCount demo_env demo_world ''user_notifications''
                 (unread_for ''U1'') (read_for ''U1'')))"
    by (simp add: in_sends updateBadgeCount_def body_sends_badge demo_defs collection_docs_def
        numeral_2_eq_2)
  from badge_value_is_unread_count [OF a] show ?thesis
    using a by (simp add: badge_message_def read_for_def no_fields_def)
qed


section \<open>The outbound data payload\<close>

lemma sent_message_data:
  assumes "MessagingSend m \<in> set (fst (sendNotificationToUser ev w c i n))"
  shows "data m = messageData ev i n"
  using assms
  by (auto simp: in_sends sendNotificationToUser_def body_sends_dispatch push_message_def
      split: if_splits)

lemma map_of_fold_update:
  "map_of (fold (\<lambda>key md. AList.update key (f key) md) ks md0) k
     = (if k \<in> set ks then Some (f k) else map_of md0 k)"
  by (induction ks arbitrary: md0) (auto simp: update_conv')

lemma map_of_assign_metadata:
  "map_of (assign_metadata ev mti md0) k =
     (case map_of mti k of None \<Rightarrow> map_of md0 k | Some v \<Rightarrow> Some (flatten_value ev v))"
proof (cases "map_of mti k")
  case None
  then have "k \<notin> set (map fst mti)"
    by (simp add: map_of_eq_None_iff)
  with None show ?thesis
    by (simp add: assign_metadata_def map_of_fold_update)
next
  case (Some v)
  then have "k \<in> set (map fst mti)"
    by (metis map_of_eq_None_iff option.distinct(1) set_map)
  with Some show ?thesis
    by (simp add: assign_metadata_def map_of_fold_update js_get_def)
qed

lemma map_of_metadataToInclude:
  "map_of (metadataToInclude md) k =
     (if k = ''fullDescription'' \<or> k = ''fullContent'' then None else map_of md k)"
  by (simp add: metadataToInclude_def delete_conv')

lemma map_of_messageData_fixed:
  "map_of (messageData_fixed i n) k =
     (if k = ''notificationId'' then Some i
      else if k = ''type'' then Some (or_empty (type n))
      else if k = ''click_action'' then Some ''FLUTTER_NOTIFICATION_CLICK''
      else if k = ''actionLink'' then Some (or_empty (actionLink n))
      else None)"
  by (simp add: messageData_fixed_def)

lemma map_of_messageData:
  "map_of (messageData ev i n) k =
     (case metadata n of
        None \<Rightarrow> map_of (messageData_fixed i n) k
      | Some md \<Rightarrow>
          (case map_of (metadataToInclude md) k of
             None \<Rightarrow> map_of (messageData_fixed i n) k
           | Some v \<Rightarrow> Some (flatten_value ev v)))"
  by (simp add: messageData_def map_of_assign_metadata split: option.splits)

text \<open>
  Claim C7. The data payload of a dispatched message has no \<^verbatim>\<open>fullDescription\<close>
  and no \<^verbatim>\<open>fullContent\<close> key, and it maps every other key of the notification's
  metadata to the value converted to a string: \<^verbatim>\<open>JSON.stringify\<close> for a value whose
  \<^verbatim>\<open>typeof\<close> is \<^verbatim>\<open>object\<close>, \<^verbatim>\<open>String\<close> for any other.
\<close>

theorem metadata_flattened:
  assumes "MessagingSend m \<in> set (fst (sendNotificationToUser ev w collection notificationId n))"
  shows "map_of (data m) ''fullDescription'' = None
       \<and> map_of (data m) ''fullContent'' = None
       \<and> (\<forall>md k v. metadata n = Some md \<and> map_of md k = Some v
              \<and> k \<noteq> ''fullDescription'' \<and> k \<noteq> ''fullContent''
            \<longrightarrow> map_of (data m) k
                  = Some (if js_typeof v = ''object'' then JSON_stringify ev v else String_js ev v))"
proof -
  have d: "data m = messageData ev notificationId n"
    using assms by (rule sent_message_data)
  have a: "map_of (data m) ''fullDescription'' = None"
    unfolding d
    by (simp add: map_of_messageData map_of_metadataToInclude map_of_messageData_fixed
        split: option.splits)
  have b: "map_of (data m) ''fullContent'' = None"
    unfolding d
    by (simp add: map_of_messageData map_of_metadataToInclude map_of_messageData_fixed
        split: option.splits)
  have c: "map_of (data m) k
             = Some (if js_typeof v = ''object'' then JSON_stringify ev v else String_js ev v)"
    if "metadata n = Some md" "map_of md k = Some v"
      "k \<noteq> ''fullDescription''" "k \<noteq> ''fullContent''" for md k v
    unfolding d using that
    by (simp add: map_of_messageData map_of_metadataToInclude flatten_value_def)
  from a b c show ?thesis by blast
qed


lemma demo_push_sent:
  "MessagingSend (push_message demo_env ''n9'' demo_notification ''token-U1'')
     \<in> set (fst (sendNotificationToUser demo_env demo_world ''user_notifications'' ''n9''
                 demo_notification))"
  by (simp add: in_sends sendNotificationToUser_def body_sends_dispatch demo_defs)

lemma clashing_push_sent:
  "MessagingSend (push_message demo_env ''n9'' clashing_notification ''token-U1'')
     \<in> set (fst (sendNotificationToUser demo_env demo_world ''user_notifications'' ''n9''
                 clashing_notification))"
  by (simp add: in_sends sendNotificationToUser_def body_sends_dispatch demo_defs
      clashing_notification_def)

theorem metadata_flattened_witness:
  "MessagingSend (push_message demo_env ''n9'' demo_notification ''token-U1'')
     \<in> set (fst (sendNotificationToUser demo_env demo_world ''user_notifications'' ''n9''
                 demo_notification))
   \<and> metadata demo_notification
       = Some [(''a'', JNum 1), (''fullDescription'', JStr ''...''), (''b'', JObj [(''x'', JNum 1)])]
   \<and> map_of (data (push_message demo_env ''n9'' demo_notification ''token-U1'')) ''a''
       = Some ''1''
   \<and> map_of (data (push_message demo_env ''n9'' demo_notification ''token-U1'')) ''b''
       = Some (''{'' @ quote ''x'' @ '':1}'')
   \<and> map_of (data (push_message demo_env ''n9'' demo_notification ''token-U1''))
        ''fullDescription'' = None"
proof -
  let ?m = "push_message demo_env ''n9'' demo_notification ''token-U1''"
  have md: "metadata demo_notification
       = Some [(''a'', JNum 1), (''fullDescription'', JStr ''...''), (''b'', JObj [(''x'', JNum 1)])]"
    by (simp add: demo_notification_def no_fields_def)
  note t = metadata_flattened [OF demo_push_sent]
  from t have fd: "map_of (data ?m) ''fullDescription'' = None"
    by blast
  from t md have "map_of (data ?m) ''a''
      = Some (if js_typeof (JNum 1) = ''object'' then JSON_stringify demo_env (JNum 1)
              else String_js demo_env (JNum 1))"
    by simp
  then have a: "map_of (data ?m) ''a'' = Some ''1''"
    by (simp add: demo_env_def show_int_def show_digits.simps)
  from t md have "map_of (data ?m) ''b''
      = Some (if js_typeof (JObj [(''x'', JNum 1)]) = ''object''
              then JSON_stringify demo_env (JObj [(''x'', JNum 1)])
              else String_js demo_env (JObj [(''x'', JNum 1)]))"
    by simp
  then have b: "map_of (data ?m) ''b'' = Some (''{'' @ quote ''x'' @ '':1}'')"
    by (simp add: demo_env_def show_int_def show_digits.simps)
  from demo_push_sent md a b fd show ?thesis by blast
qed

text \<open>
  Claim C9. The metadata entries are assigned after the four fixed fields: for a key named
  \<^verbatim>\<open>notificationId\<close>, \<^verbatim>\<open>type\<close>, \<^verbatim>\<open>click_action\<close> or
  \<^verbatim>\<open>actionLink\<close>, the data payload of the dispatched message holds the converted
  metadata value when the metadata has the key, and the fixed value only when it has not.
\<close>

theorem metadata_overrides_fixed_fields:
  assumes "MessagingSend m \<in> set (fst (sendNotificationToUser ev w collection notificationId n))"
    and "metadata n = Some md"
    and "k \<in> {''notificationId'', ''type'', ''click_action'', ''actionLink''}"
  shows "map_of (data m) k =
           (case map_of md k of
              Some v \<Rightarrow> Some (if js_typeof v = ''object'' then JSON_stringify ev v else String_js ev v)
            | None \<Rightarrow> map_of (messageData_fixed notificationId n) k)"
proof -
  have d: "data m = messageData ev notificationId n"
    using assms(1) by (rule sent_message_data)
  from assms(3) have "k \<noteq> ''fullDescription''" "k \<noteq> ''fullContent''"
    by auto
  then show ?thesis
    unfolding d using assms(2)
    by (simp add: map_of_messageData map_of_metadataToInclude flatten_value_def
        split: option.splits)
qed

theorem metadata_overrides_fixed_fields_witness:
  "MessagingSend (push_message demo_env ''n9'' clashing_notification ''token-U1'')
     \<in> set (fst (sendNotificationToUser demo_env demo_world ''user_notifications'' ''n9''
                 clashing_notification))
   \<and> metadata clashing_notification = Some [(''type'', JStr ''other''), (''actionLink'', JNull)]
   \<and> map_of (messageData_fixed ''n9'' clashing_notification) ''type'' = Some ''promo''
   \<and> map_of (data (push_message demo_env ''n9'' clashing_notification ''token-U1'')) ''type''
       = Some ''other''
   \<and> map_of (messageData_fixed ''n9'' clashing_notification) ''actionLink'' = Some ''event/E1''
   \<and> map_of (data (push_message demo_env ''n9'' clashing_notification ''token-U1'')) ''actionLink''
       = Some ''null''
   \<and> map_of (data (push_message demo_env ''n9'' clashing_notification ''token-U1''))
        ''notificationId'' = Some ''n9''"
proof -
  let ?m = "push_message demo_env ''n9'' clashing_notification ''token-U1''"
  have md: "metadata clashing_notification
              = Some [(''type'', JStr ''other''), (''actionLink'', JNull)]"
    by (simp add: clashing_notification_def no_fields_def)
  note t = metadata_overrides_fixed_fields [OF clashing_push_sent md]
  have a: "map_of (data ?m) ''type'' = Some ''other''"
    using t [of "''type''"] by (simp add: demo_env_def)
  have b: "map_of (data ?m) ''actionLink'' = Some ''null''"
    using t [of "''actionLink''"] by (simp add: demo_env_def)
  have c: "map_of (data ?m) ''notificationId'' = Some ''n9''"
    using t [of "''notificationId''"] by (simp add: map_of_messageData_fixed)
  have f: "map_of (messageData_fixed ''n9'' clashing_notification) ''type'' = Some ''promo''"
    "map_of (messageData_fixed ''n9'' clashing_notification) ''actionLink'' = Some ''event/E1''"
    by (simp_all add: map_of_messageData_fixed clashing_notification_def no_fields_def)
  from clashing_push_sent md a b c f show ?thesis by blast
qed

lemma ts_le_toNanos:
  assumes "valid_ts a" and "valid_ts b"
  shows "ts_le a b \<longleftrightarrow> toNanos a \<le> toNanos b"
  using assms unfolding ts_le_def toNanos_def valid_ts_def by auto

lemma toNanos_later:
  "toNanos (oneHourLater now) = toNanos now + 3600 * 1000000000"
  "toNanos (twoHoursLater now) = toNanos now + 7200 * 1000000000"
  by (simp_all add: toNanos_def oneHourLater_def twoHoursLater_def)

lemma valid_later:
  "valid_ts (oneHourLater now) = valid_ts now"
  "valid_ts (twoHoursLater now) = valid_ts now"
  by (simp_all add: valid_ts_def oneHourLater_def twoHoursLater_def)

text \<open>
  Claim C8. The bounds of the query are the current time with 3600 and 7200 added to its
  seconds, and for timestamps with nanoseconds below one second the run selects exactly
  the event documents whose \<^verbatim>\<open>startTime\<close> \<open>t\<close> satisfies
  \<open>T + 1h \<le> t \<le> T + 2h\<close>, both ends included.
\<close>

theorem reminder_window:
  assumes "valid_ts now"
    and "list_all (\<lambda>d. case startTime (snd d) of None \<Rightarrow> True | Some t \<Rightarrow> valid_ts t) (events w)"
  shows "oneHourLater now = \<lparr> seconds = seconds now + 3600, nanoseconds = nanoseconds now \<rparr>
       \<and> twoHoursLater now = \<lparr> seconds = seconds now + 7200, nanoseconds = nanoseconds now \<rparr>
       \<and> eventsSnapshot now w = filter (start_in_window now) (events w)"
proof -
  have "in_window now (snd d) = start_in_window now d" if "d \<in> set (events w)" for d
  proof (cases "startTime (snd d)")
    case None
    then show ?thesis by (simp add: in_window_def start_in_window_def)
  next
    case (Some t)
    with assms(2) that have "valid_ts t"
      by (auto simp: list_all_iff)
    with Some assms(1) show ?thesis
      by (simp add: in_window_def start_in_window_def ts_le_toNanos valid_later toNanos_later)
  qed
  then have "eventsSnapshot now w = filter (start_in_window now) (events w)"
    unfolding eventsSnapshot_def by (intro filter_cong) auto
  then show ?thesis
    by (simp add: oneHourLater_def twoHoursLater_def)
qed

theorem reminder_window_witness:
  "valid_ts demo_now
   \<and> list_all (\<lambda>d. case startTime (snd d) of None \<Rightarrow> True | Some t \<Rightarrow> valid_ts t)
        (events boundary_world)
   \<and> eventsSnapshot demo_now boundary_world
       = [(''first'', event_at 1700003600 250000000), (''last'', event_at 1700007200 250000000)]"
proof -
  have h1: "valid_ts demo_now"
    by (simp add: valid_ts_def demo_now_def)
  have h2: "list_all (\<lambda>d. case startTime (snd d) of None \<Rightarrow> True | Some t \<Rightarrow> valid_ts t)
        (events boundary_world)"
    by (simp add: boundary_world_def event_at_def valid_ts_def)
  from reminder_window [OF h1 h2]
  have "eventsSnapshot demo_now boundary_world
          = filter (start_in_window demo_now) (events boundary_world)"
    by blast
  also have "\<dots> = [(''first'', event_at 1700003600 250000000),
                   (''last'', event_at 1700007200 250000000)]"
    by (simp add: boundary_world_def start_in_window_def event_at_def toNanos_def demo_now_def)
  finally show ?thesis using h1 h2 by blast
qed


section \<open>The reminder generator\<close>

lemma promises_append [simp]: "promises (xs @ ys) = promises xs @ promises ys"
  by (induction xs rule: promises.induct) auto

lemma batch_append [simp]: "batch (xs @ ys) = batch xs @ batch ys"
  by (induction xs rule: batch.induct) auto

lemma promises_try_catch [simp]: "promises (fst (try_catch l b)) = promises (fst b)"
  by (cases "(l, b)" rule: try_catch.cases) auto

lemma batch_try_catch [simp]: "batch (fst (try_catch l b)) = batch (fst b)"
  by (cases "(l, b)" rule: try_catch.cases) auto

lemma fst_and_then:
  "fst (and_then a b) = (case snd a of None \<Rightarrow> fst a @ fst b | Some e \<Rightarrow> fst a)"
  by (cases "(a, b)" rule: and_then.cases) auto

lemma promises_and_then:
  "set (promises (fst (and_then a b))) \<subseteq> set (promises (fst a)) \<union> set (promises (fst b))"
  by (auto simp: fst_and_then split: option.splits)

lemma batch_and_then:
  "set (batch (fst (and_then a b))) \<subseteq> set (batch (fst a)) \<union> set (batch (fst b))"
  by (auto simp: fst_and_then split: option.splits)

lemma reminder_eventId_simps [simp]:
  "reminder_eventId (creator_reminder now i e c) = Some i"
  "reminder_eventId (attendee_reminder now i e a) = Some i"
  by (simp_all add: reminder_eventId_def creator_reminder_def attendee_reminder_def
      reminder_metadata_def)

lemma promises_collection_add:
  "p \<in> set (promises (fst (collection_add c d))) \<Longrightarrow> p = (c, d)"
  by (auto simp: collection_add_def split: option.splits)

lemma batch_collection_add [simp]: "batch (fst (collection_add c d)) = []"
  by (auto simp: collection_add_def split: option.splits)

lemma promises_add_attendees:
  "p \<in> set (promises (fst (add_attendees now eid event as)))
     \<Longrightarrow> reminder_eventId (snd p) = Some eid"
proof (induction as)
  case Nil
  then show ?case by simp
next
  case (Cons a as)
  from Cons.prems promises_and_then
  have "p \<in> set (promises (fst (collection_add ''user_notifications''
                                    (attendee_reminder now eid event a))))
        \<or> p \<in> set (promises (fst (add_attendees now eid event as)))"
    by fastforce
  then show ?case
    using Cons.IH by (auto dest: promises_collection_add)
qed

lemma batch_add_attendees [simp]: "batch (fst (add_attendees now eid event as)) = []"
  by (induction as) (auto simp: fst_and_then split: option.splits)

lemma promises_process_event:
  assumes "p \<in> set (promises (fst (process_event now d)))"
  shows "reminderSent (snd d) \<noteq> Some True \<and> reminder_eventId (snd p) = Some (fst d)"
proof (cases "reminderSent (snd d) = Some True")
  case True
  with assms show ?thesis by (simp add: process_event_def Let_def)
next
  case False
  with assms show ?thesis
    by (auto simp: process_event_def Let_def fst_and_then
        split: option.splits if_splits
        dest: promises_collection_add promises_add_attendees)
qed

lemma batch_process_event:
  assumes "u \<in> set (batch (fst (process_event now d)))"
  shows "reminderSent (snd d) \<noteq> Some True \<and> u = (fst d, True)"
proof (cases "reminderSent (snd d) = Some True")
  case True
  with assms show ?thesis by (simp add: process_event_def Let_def)
next
  case False
  with assms show ?thesis
    by (auto simp: process_event_def Let_def fst_and_then split: option.splits if_splits)
qed

lemma promises_process_events:
  assumes "p \<in> set (promises (fst (process_events now docs)))"
  shows "\<exists>d \<in> set docs. reminderSent (snd d) \<noteq> Some True \<and> reminder_eventId (snd p) = Some (fst d)"
  using assms
proof (induction docs)
  case Nil
  then show ?case by simp
next
  case (Cons d docs)
  from Cons.prems promises_and_then
  have "p \<in> set (promises (fst (process_event now d)))
        \<or> p \<in> set (promises (fst (process_events now docs)))"
    by fastforce
  then show ?case
    using Cons.IH promises_process_event by fastforce
qed

lemma batch_process_events:
  assumes "u \<in> set (batch (fst (process_events now docs)))"
  shows "\<exists>d \<in> set docs. reminderSent (snd d) \<noteq> Some True \<and> u = (fst d, True)"
  using assms
proof (induction docs)
  case Nil
  then show ?case by simp
next
  case (Cons d docs)
  from Cons.prems batch_and_then
  have "u \<in> set (batch (fst (process_event now d)))
        \<or> u \<in> set (batch (fst (process_events now docs)))"
    by fastforce
  then show ?case
    using Cons.IH batch_process_event by fastforce
qed

lemma promises_body:
  "promises (fst (sendEventReminders_body ev w now)) =
     (if query_fault ev = None then promises (fst (process_events now (eventsSnapshot now w)))
      else [])"
  by (auto simp: sendEventReminders_body_def Let_def split: option.splits)

lemma batch_body:
  "batch (fst (sendEventReminders_body ev w now)) =
     (if query_fault ev = None then batch (fst (process_events now (eventsSnapshot now w)))
      else [])"
  by (auto simp: sendEventReminders_body_def Let_def split: option.splits)

lemma promises_sendEventReminders:
  "promises (fst (sendEventReminders ev w now)) = promises (fst (sendEventReminders_body ev w now))"
  by (auto simp: sendEventReminders_def Let_def split: progress.splits option.splits)

lemma batch_sendEventReminders:
  "batch (fst (sendEventReminders ev w now)) = batch (fst (sendEventReminders_body ev w now))"
  by (auto simp: sendEventReminders_def Let_def split: progress.splits option.splits)

lemma promises_run_origin:
  assumes "p \<in> set (promises (fst (sendEventReminders ev w now)))"
  shows "\<exists>d \<in> set (events w). reminderSent (snd d) \<noteq> Some True
           \<and> reminder_eventId (snd p) = Some (fst d)"
proof -
  from assms have "p \<in> set (promises (fst (process_events now (eventsSnapshot now w))))"
    by (simp add: promises_sendEventReminders promises_body split: if_splits)
  from promises_process_events [OF this] show ?thesis
    by (fastforce simp: eventsSnapshot_def)
qed

lemma batch_run_origin:
  assumes "u \<in> set (batch (fst (sendEventReminders ev w now)))"
  shows "\<exists>d \<in> set (events w). reminderSent (snd d) \<noteq> Some True \<and> u = (fst d, True)"
proof -
  from assms have "u \<in> set (batch (fst (process_events now (eventsSnapshot now w))))"
    by (simp add: batch_sendEventReminders batch_body split: if_splits)
  from batch_process_events [OF this] show ?thesis
    by (fastforce simp: eventsSnapshot_def)
qed

lemma flagged_event_untouched:
  assumes "distinct (map fst (events w))" and "(eid, e) \<in> set (events w)"
    and "reminderSent e = Some True"
  shows "promises_for eid (fst (sendEventReminders ev w now)) = []"
    and "batch_for eid (fst (sendEventReminders ev w now)) = []"
proof -
  have only: "d = (eid, e)" if "d \<in> set (events w)" "fst d = eid" for d
  proof -
    from that have "(eid, snd d) \<in> set (events w)"
      by (cases d) auto
    from eq_key_imp_eq_value [OF assms(1) this assms(2)] that(2) show ?thesis
      by (cases d) auto
  qed
  have "reminder_eventId (snd p) \<noteq> Some eid"
    if "p \<in> set (promises (fst (sendEventReminders ev w now)))" for p
  proof
    assume "reminder_eventId (snd p) = Some eid"
    with promises_run_origin [OF that] obtain d where
      d: "d \<in> set (events w)" "reminderSent (snd d) \<noteq> Some True" "fst d = eid"
      by auto
    from only [OF d(1,3)] d(2) assms(3) show False by simp
  qed
  then show "promises_for eid (fst (sendEventReminders ev w now)) = []"
    by (auto simp: promises_for_def filter_empty_conv)
  have "fst u \<noteq> eid" if "u \<in> set (batch (fst (sendEventReminders ev w now)))" for u
  proof
    assume "fst u = eid"
    with batch_run_origin [OF that] obtain d where
      d: "d \<in> set (events w)" "reminderSent (snd d) \<noteq> Some True" "fst d = eid"
      by auto
    from only [OF d(1,3)] d(2) assms(3) show False by simp
  qed
  then show "batch_for eid (fst (sendEventReminders ev w now)) = []"
    by (auto simp: batch_for_def filter_empty_conv)
qed

subsection \<open>The store after a run\<close>

lemma events_add_doc [simp]: "events (add_doc c i d w) = events w"
  by (simp add: add_doc_def)

lemma map_fst_update_reminderSent [simp]:
  "map fst (update_reminderSent u docs) = map fst docs"
  by (induction docs) (auto simp: update_reminderSent_def)

lemma map_fst_fold_update [simp]:
  "map fst (fold update_reminderSent us docs) = map fst docs"
  by (induction us arbitrary: docs) auto

lemma flagged_docs_update:
  assumes "list_ex (\<lambda>d. fst d = eid \<and> reminderSent (snd d) = Some True) docs" and "snd u"
  shows "list_ex (\<lambda>d. fst d = eid \<and> reminderSent (snd d) = Some True) (update_reminderSent u docs)"
  using assms by (induction docs) (auto simp: update_reminderSent_def)

lemma flagged_docs_fold:
  assumes "list_ex (\<lambda>d. fst d = eid \<and> reminderSent (snd d) = Some True) docs"
    and "\<forall>u \<in> set us. snd u"
  shows "list_ex (\<lambda>d. fst d = eid \<and> reminderSent (snd d) = Some True)
           (fold update_reminderSent us docs)"
  using assms by (induction us arbitrary: docs) (auto intro: flagged_docs_update)

lemma flagged_docs_set:
  assumes "eid \<in> set (map fst docs)"
  shows "list_ex (\<lambda>d. fst d = eid \<and> reminderSent (snd d) = Some True)
           (update_reminderSent (eid, True) docs)"
  using assms by (induction docs) (auto simp: update_reminderSent_def)

lemma flagged_docs_fold_set:
  assumes "eid \<in> set (map fst docs)" and "(eid, True) \<in> set us" and "\<forall>u \<in> set us. snd u"
  shows "list_ex (\<lambda>d. fst d = eid \<and> reminderSent (snd d) = Some True)
           (fold update_reminderSent us docs)"
  using assms
proof (induction us arbitrary: docs)
  case Nil
  then show ?case by simp
next
  case (Cons u us)
  show ?case
  proof (cases "u = (eid, True)")
    case True
    with Cons.prems have "list_ex (\<lambda>d. fst d = eid \<and> reminderSent (snd d) = Some True)
           (update_reminderSent u docs)"
      by (simp add: flagged_docs_set)
    with Cons.prems show ?thesis
      by (simp add: flagged_docs_fold)
  next
    case False
    with Cons.prems have b: "(eid, True) \<in> set us" by auto
    have a: "eid \<in> set (map fst (update_reminderSent u docs))"
      using Cons.prems(1) by (simp only: map_fst_update_reminderSent)
    have c: "\<forall>u \<in> set us. snd u"
      using Cons.prems(3) by simp
    from Cons.IH [OF a b c] show ?thesis by simp
  qed
qed

lemma apply_effects_flagged:
  assumes "flagged eid w" and "\<forall>u \<in> set staged. snd u" and "\<forall>u \<in> set (batch effs). snd u"
  shows "flagged eid (apply_effects ev effs staged k w)"
  using assms
proof (induction ev effs staged k w rule: apply_effects.induct)
  case (3 ev es staged k w)
  then show ?case
    by (auto simp: flagged_def flagged_docs_fold split: option.splits)
next
  case (4 ev c d es staged k w)
  then show ?case
    by (auto simp: flagged_def split: sum.splits)
qed auto

lemma apply_effects_ids:
  "map fst (events (apply_effects ev effs staged k w)) = map fst (events w)"
proof (induction ev effs staged k w rule: apply_effects.induct)
  case (3 ev es staged k w)
  then show ?case by (auto split: option.splits)
next
  case (4 ev c d es staged k w)
  then show ?case by (auto split: sum.splits)
qed auto

lemma batch_dispatch [simp]: "batch (fst (sendNotificationToUser ev w c i n)) = []"
  by (auto simp: sendNotificationToUser_def sendNotificationToUser_body_def Let_def
      split: option.splits sum.splits)

lemma batch_badge [simp]: "batch (fst (updateBadgeCount ev w c b a)) = []"
  by (auto simp: updateBadgeCount_def updateBadgeCount_body_def Let_def
      split: option.splits sum.splits)

lemma batch_handle_true: "\<forall>u \<in> set (batch (fst (handle ev w tr))). snd u"
proof (cases tr)
  case (OnSchedule now)
  then show ?thesis
    by (auto dest: batch_run_origin)
qed simp_all

lemma step_flagged: "flagged eid w \<Longrightarrow> flagged eid (step w et)"
  by (simp add: step_def apply_effects_flagged batch_handle_true)

lemma step_ids: "map fst (events (step w et)) = map fst (events w)"
  by (simp add: step_def apply_effects_ids)

lemma run_flagged: "flagged eid w \<Longrightarrow> flagged eid (run ets w)"
  unfolding run_def by (induction ets arbitrary: w) (auto intro: step_flagged)

lemma run_ids: "map fst (events (run ets w)) = map fst (events w)"
  unfolding run_def by (induction ets arbitrary: w) (auto simp: step_ids)

lemma flagged_member:
  "flagged eid w \<longleftrightarrow> (\<exists>e. (eid, e) \<in> set (events w) \<and> reminderSent e = Some True)"
  by (force simp: flagged_def list_ex_iff)

text \<open>
  Claim C1. Let an event document be flagged \<^verbatim>\<open>reminderSent = true\<close> in a
  collection with distinct document ids. After any sequence of invocations of the three
  handlers, under any outcomes of their external calls, the document is still flagged,
  and a run of the reminder generator then adds no notification document for that event
  and stages no flag update for it.
\<close>

text \<open>
  Claim C1. Let an event document be flagged \<^verbatim>\<open>reminderSent = true\<close> in a
  collection with distinct document ids. After any sequence of invocations of the three
  handlers, under any outcomes of their external calls, the document is still flagged,
  and a run of the reminder generator then adds no notification document for that event
  and stages no flag update for it.
\<close>

theorem reminder_sent_is_final:
  assumes "(eid, event) \<in> set (events w)"
    and "reminderSent event = Some True"
    and "distinct (map fst (events w))"
  shows "flagged eid (run ets w)
       \<and> promises_for eid (fst (sendEventReminders ev (run ets w) now)) = []
       \<and> batch_for eid (fst (sendEventReminders ev (run ets w) now)) = []"
proof -
  from assms(1,2) have "flagged eid w"
    unfolding flagged_member by blast
  then have f: "flagged eid (run ets w)"
    by (rule run_flagged)
  then obtain e' where e': "(eid, e') \<in> set (events (run ets w))" "reminderSent e' = Some True"
    by (auto simp: flagged_member)
  have d: "distinct (map fst (events (run ets w)))"
    using assms(3) by (simp add: run_ids)
  from f flagged_event_untouched [OF d e'] show ?thesis
    by simp
qed

theorem reminder_sent_is_final_witness:
  "(''E2'', reminded) \<in> set (events pier_world)
   \<and> reminderSent reminded = Some True
   \<and> distinct (map fst (events pier_world))
   \<and> flagged ''E2'' (run [(demo_env, OnSchedule demo_now)] pier_world)
   \<and> promises_for ''E2''
        (fst (sendEventReminders demo_env (run [(demo_env, OnSchedule demo_now)] pier_world)
           demo_now)) = []
   \<and> batch_for ''E2''
        (fst (sendEventReminders demo_env (run [(demo_env, OnSchedule demo_now)] pier_world)
           demo_now)) = []"
proof -
  have h1: "(''E2'', reminded) \<in> set (events pier_world)"
    by (simp add: pier_world_def demo_world_def)
  have h2: "reminderSent reminded = Some True"
    by (simp add: reminded_def event_at_def)
  have h3: "distinct (map fst (events pier_world))"
    by (simp add: pier_world_def demo_world_def)
  from reminder_sent_is_final [OF h1 h2 h3, of "[(demo_env, OnSchedule demo_now)]" demo_env demo_now]
    h1 h2 h3
  show ?thesis by blast
qed



lemmas event_defs =
  launch_def meetup_def reminded_def pier_def hall_def event_at_def demo_now_def in_window_def
  ts_le_def oneHourLater_def twoHoursLater_def eventsSnapshot_def

lemmas reminder_defs =
  process_event_def collection_add_def validateDocumentData_def creator_reminder_def
  attendee_reminder_def reminder_metadata_def Let_def

lemma launch_run:
  "sendEventReminders demo_env demo_world demo_now
     = ([ConsoleLog [LStr ''Found '', LNum 2, LStr '' events for reminders''],
         BatchUpdate ''E1'' True,
         ConsoleError [LStr ''Error sending event reminders:'',
                       LErr (Error ''Cannot use undefined as a Firestore value'')]],
        Inr RNull)"
  by (simp add: sendEventReminders_def sendEventReminders_body_def demo_env_def demo_world_def
      event_defs reminder_defs numeral_2_eq_2)

text \<open>
  Claim C5 does not hold of the code at the specification's own scenario. The Launch event
  is in the window, unflagged, with one creator and two attendees, and every call of the
  environment succeeds. Its reminder documents carry
  \<^verbatim>\<open>venueAddress: undefined\<close>, so the first \<^verbatim>\<open>add\<close> throws: the run issues
  no \<^verbatim>\<open>add\<close> call, never commits the staged flag update, logs the error and returns
  \<^verbatim>\<open>null\<close>, and the event is not flagged afterwards.
\<close>

theorem launch_scenario_aborts:
  "(''E1'', launch) \<in> set (eventsSnapshot demo_now demo_world)
   \<and> reminderSent launch = Some False
   \<and> creatorId launch = Some ''C1''
   \<and> attendees launch = Some [''U1'', ''U2'']
   \<and> venueAddress launch = None
   \<and> sendEventReminders demo_env demo_world demo_now
       = ([ConsoleLog [LStr ''Found '', LNum 2, LStr '' events for reminders''],
           BatchUpdate ''E1'' True,
           ConsoleError [LStr ''Error sending event reminders:'',
                         LErr (Error ''Cannot use undefined as a Firestore value'')]],
          Inr RNull)
   \<and> promises (fst (sendEventReminders demo_env demo_world demo_now)) = []
   \<and> \<not> flagged ''E1'' (step demo_world (demo_env, OnSchedule demo_now))"
proof -
  have a: "(''E1'', launch) \<in> set (eventsSnapshot demo_now demo_world)"
    by (simp add: demo_world_def event_defs)
  have b: "reminderSent launch = Some False" "creatorId launch = Some ''C1''"
    "attendees launch = Some [''U1'', ''U2'']" "venueAddress launch = None"
    by (simp_all add: launch_def event_at_def)
  have c: "promises (fst (sendEventReminders demo_env demo_world demo_now)) = []"
    by (simp add: launch_run)
  have "step demo_world (demo_env, OnSchedule demo_now) = demo_world"
    by (simp add: step_def launch_run)
  moreover have "\<not> flagged ''E1'' demo_world"
    by (simp add: flagged_def demo_world_def launch_def reminded_def event_at_def)
  ultimately have d: "\<not> flagged ''E1'' (step demo_world (demo_env, OnSchedule demo_now))"
    by simp
  from a b launch_run c d show ?thesis by blast
qed

text \<open>
  Claim C10 does not hold of the code for an event without \<^verbatim>\<open>venueAddress\<close>: the
  creator attends and one attendee is listed twice, and the run issues no \<^verbatim>\<open>add\<close>
  call at all, by the same throw as for claim C5. With the venue set (lemma
  \<open>hall_issued\<close> below) the run adds one document per occurrence.
\<close>

theorem duplicate_attendees_run_aborts:
  "(''E3'', meetup) \<in> set (eventsSnapshot demo_now meetup_world)
   \<and> reminderSent meetup \<noteq> Some True
   \<and> creatorId meetup = Some ''U1''
   \<and> attendees meetup = Some [''U1'', ''U2'', ''U2'']
   \<and> venueAddress meetup = None
   \<and> sendEventReminders demo_env meetup_world demo_now
       = ([ConsoleLog [LStr ''Found '', LNum 1, LStr '' events for reminders''],
           BatchUpdate ''E3'' True,
           ConsoleError [LStr ''Error sending event reminders:'',
                         LErr (Error ''Cannot use undefined as a Firestore value'')]],
          Inr RNull)
   \<and> promises (fst (sendEventReminders demo_env meetup_world demo_now)) = []"
proof -
  have a: "(''E3'', meetup) \<in> set (eventsSnapshot demo_now meetup_world)"
    by (simp add: meetup_world_def demo_world_def event_defs)
  have b: "reminderSent meetup \<noteq> Some True" "creatorId meetup = Some ''U1''"
    "attendees meetup = Some [''U1'', ''U2'', ''U2'']" "venueAddress meetup = None"
    by (simp_all add: meetup_def event_at_def)
  have r: "sendEventReminders demo_env meetup_world demo_now
       = ([ConsoleLog [LStr ''Found '', LNum 1, LStr '' events for reminders''],
           BatchUpdate ''E3'' True,
           ConsoleError [LStr ''Error sending event reminders:'',
                         LErr (Error ''Cannot use undefined as a Firestore value'')]],
          Inr RNull)"
    by (simp add: sendEventReminders_def sendEventReminders_body_def demo_env_def
        meetup_world_def demo_world_def event_defs reminder_defs)
  have c: "promises (fst (sendEventReminders demo_env meetup_world demo_now)) = []"
    by (simp add: r)
  from a b r c show ?thesis by blast
qed

text \<open>With the venue set, the same events are reminded.\<close>

lemma pier_issued:
  "process_events demo_now (eventsSnapshot demo_now pier_world)
     = ([BatchUpdate ''E1'' True,
         CollectionAdd ''creator_notifications'' (creator_reminder demo_now ''E1'' pier ''C1''),
         CollectionAdd ''user_notifications'' (attendee_reminder demo_now ''E1'' pier ''U1''),
         CollectionAdd ''user_notifications'' (attendee_reminder demo_now ''E1'' pier ''U2'')],
        None)"
  by (simp add: pier_world_def demo_world_def event_defs process_event_def collection_add_def
      validateDocumentData_def reminder_metadata_def creator_reminder_def attendee_reminder_def
      Let_def)

lemma hall_issued:
  "process_events demo_now (eventsSnapshot demo_now hall_world)
     = ([BatchUpdate ''E3'' True,
         CollectionAdd ''creator_notifications'' (creator_reminder demo_now ''E3'' hall ''U1''),
         CollectionAdd ''user_notifications'' (attendee_reminder demo_now ''E3'' hall ''U1''),
         CollectionAdd ''user_notifications'' (attendee_reminder demo_now ''E3'' hall ''U2''),
         CollectionAdd ''user_notifications'' (attendee_reminder demo_now ''E3'' hall ''U2'')],
        None)"
  by (simp add: hall_world_def demo_world_def event_defs process_event_def collection_add_def
      validateDocumentData_def reminder_metadata_def creator_reminder_def attendee_reminder_def
      Let_def)

lemma pier_snapshot_nonempty: "eventsSnapshot demo_now pier_world \<noteq> []"
  by (simp add: pier_world_def demo_world_def event_defs)

lemma pier_reminded:
  "promises (fst (sendEventReminders demo_env pier_world demo_now))
     = [(''creator_notifications'', creator_reminder demo_now ''E1'' pier ''C1''),
        (''user_notifications'', attendee_reminder demo_now ''E1'' pier ''U1''),
        (''user_notifications'', attendee_reminder demo_now ''E1'' pier ''U2'')]"
  "snd (sendEventReminders demo_env pier_world demo_now) = Inr RSuccess"
  by (simp_all add: sendEventReminders_def sendEventReminders_body_def Let_def pier_issued
      pier_snapshot_nonempty demo_env_def numeral_3_eq_3)

section \<open>Failures\<close>

text \<open>
  Claim C6 does not hold of \<^verbatim>\<open>sendEventReminders\<close>. The \<^verbatim>\<open>add\<close> promises are
  created without a handler and awaited only after the commit. When the commit rejects,
  the \<^verbatim>\<open>catch\<close> block logs that error and returns \<^verbatim>\<open>null\<close>, and the
  rejection of an \<^verbatim>\<open>add\<close> is neither caught nor logged; when an \<^verbatim>\<open>add\<close>
  rejects while a successful commit is pending, the rejection is unhandled before the
  handler settles.
\<close>

theorem unawaited_rejection_escapes:
  "query_fault commit_and_add_down = None
   \<and> commit_fault commit_and_add_down = Some (Error ''aborted'')
   \<and> add_result commit_and_add_down 0 = Inl (Error ''unavailable'')
   \<and> length (promises (fst (sendEventReminders commit_and_add_down pier_world demo_now))) = 3
   \<and> snd (sendEventReminders commit_and_add_down pier_world demo_now)
       = Inl (Error ''unavailable'')
   \<and> last (fst (sendEventReminders commit_and_add_down pier_world demo_now))
       = ConsoleError [LStr ''Error sending event reminders:'', LErr (Error ''aborted'')]
   \<and> ConsoleError [LStr ''Error sending event reminders:'', LErr (Error ''unavailable'')]
       \<notin> set (fst (sendEventReminders commit_and_add_down pier_world demo_now))
   \<and> commit_fault add_down_first = None
   \<and> snd (sendEventReminders add_down_first pier_world demo_now) = Inl (Error ''unavailable'')
   \<and> last (fst (sendEventReminders add_down_first pier_world demo_now)) = BatchCommit"
  by (simp add: sendEventReminders_def sendEventReminders_body_def Let_def pier_issued
      pier_snapshot_nonempty commit_and_add_down_def add_down_first_def demo_env_def
      numeral_3_eq_3)

text \<open>The other two handlers await every call inside their \<^verbatim>\<open>try\<close> block.\<close>

lemma dispatcher_and_badge_catch_all:
  "\<exists>v. snd (sendNotificationToUser ev w c i n) = Inr v"
  "\<exists>v. snd (updateBadgeCount ev w c b a) = Inr v"
proof -
  have r: "\<exists>v. snd (try_catch l x) = Inr v" for l x
    by (cases "(l, x)" rule: try_catch.cases) auto
  show "\<exists>v. snd (sendNotificationToUser ev w c i n) = Inr v"
    "\<exists>v. snd (updateBadgeCount ev w c b a) = Inr v"
    unfolding sendNotificationToUser_def updateBadgeCount_def by (rule r)+
qed

end
